theory Spec2Isabelle
  imports Complex_Main "HOL-Library.AList"
begin

section \<open>JavaScript values and React elements\<close>

text \<open>
  A JavaScript number is a finite value or one of the three special values; the
  examples use \<open>-Infinity\<close> and \<open>+Infinity\<close> as option values.
\<close>

datatype number = Finite rat | PosInfinity | NegInfinity | NaN

text \<open>
  The type of a React element: an intrinsic tag (\<open>"li"\<close>, \<open>"a"\<close>, \<open>"span"\<close>) or one of
  the components that the source files import (\<open>MenuItemComponent\<close> is the
  component \<open>MenuItem\<close> used as an element type).
\<close>

datatype elemType =
  Intrinsic string | Popover | Menu | MenuItemComponent | Text | Icon | CaretRight | Button

text \<open>
  Values as they flow through props. An object is a finite map from property names to
  values: a key bound to \<open>Undefined\<close> is an own property whose value is
  \<open>undefined\<close>, an unbound key is no property at all. Functions (event handlers)
  are opaque and told apart by an identity. An element is the result of
  \<open>React.createElement\<close>: its type, its props and its children.
\<close>

datatype jsval =
    Undefined
  | Null
  | Bool bool
  | Num number
  | Str string
  | Fn nat
  | Arr "jsval list"
  | Obj "string \<Rightarrow> jsval option"
  | Element elemType "string \<Rightarrow> jsval option" "jsval list"

type_synonym object = "string \<Rightarrow> jsval option"

text \<open>\<open>v == null\<close>: true of \<open>null\<close> and of \<open>undefined\<close>.\<close>

definition nullish :: "jsval \<Rightarrow> bool" where
  "nullish v = (v = Null \<or> v = Undefined)"

text \<open>\<open>a ?? b\<close>\<close>

definition nullishCoalesce :: "jsval \<Rightarrow> jsval \<Rightarrow> jsval" where
  "nullishCoalesce a b = (if nullish a then b else a)"

text \<open>\<open>o.k\<close> on an object: \<open>undefined\<close> when \<open>k\<close> is no property of \<open>o\<close>.\<close>

definition getProp :: "object \<Rightarrow> string \<Rightarrow> jsval" where
  "getProp obj k = (case obj k of None \<Rightarrow> Undefined | Some v \<Rightarrow> v)"

text \<open>
  An optional boolean prop (\<open>boolean | undefined\<close>) is a \<open>bool option\<close>, an optional
  string prop a \<open>string option\<close>; \<open>None\<close> is \<open>undefined\<close>. \<open>truthy\<close> is the
  test JavaScript applies to such a boolean in a condition.
\<close>

definition truthy :: "bool option \<Rightarrow> bool" where
  "truthy b = (b = Some True)"

definition ofBool :: "bool option \<Rightarrow> jsval" where
  "ofBool b = (case b of None \<Rightarrow> Undefined | Some v \<Rightarrow> Bool v)"

definition ofString :: "string option \<Rightarrow> jsval" where
  "ofString s = (case s of None \<Rightarrow> Undefined | Some v \<Rightarrow> Str v)"

text \<open>\<open>{...o}\<close> for an optional object: spreading \<open>undefined\<close> adds nothing.\<close>

definition spread :: "object option \<Rightarrow> object" where
  "spread obj = (case obj of None \<Rightarrow> Map.empty | Some m \<Rightarrow> m)"

text \<open>
  \<open>React.createElement(type, config, ...children)\<close>: when children are passed they
  replace a \<open>children\<close> entry of the config.
\<close>

definition createElement :: "elemType \<Rightarrow> object \<Rightarrow> jsval list \<Rightarrow> jsval" where
  "createElement ty config kids =
     Element ty (if kids = [] then config else config(''children'' := None)) kids"

text \<open>Reading a rendered element.\<close>

fun elementType :: "jsval \<Rightarrow> elemType option" where
  "elementType (Element ty ps kids) = Some ty"
| "elementType v = None"

fun elementProps :: "jsval \<Rightarrow> object" where
  "elementProps (Element ty ps kids) = ps"
| "elementProps v = Map.empty"

fun elementChildren :: "jsval \<Rightarrow> jsval list" where
  "elementChildren (Element ty ps kids) = kids"
| "elementChildren v = []"

text \<open>An attribute of a rendered element; \<open>Undefined\<close> is an attribute that is not set.\<close>

definition attr :: "jsval \<Rightarrow> string \<Rightarrow> jsval" where
  "attr e k = getProp (elementProps e) k"

section \<open>The \<open>classnames\<close> helper and the class list of an element\<close>

text \<open>
  The arguments \<open>menuItem.tsx\<close> passes to \<open>classNames\<close> are optional strings and one
  object literal whose keys are class names and whose values are conditions; the helper
  only tests the conditions for truthiness, so an entry carries that test's result.
\<close>

datatype classValue = ClassStr "string option" | ClassMap "(string \<times> bool) list"

text \<open>
  An object literal with computed keys: a key written twice keeps its first position
  and its last value. (Keys are enumerated in the order written; JavaScript moves keys
  that are array indices to the front, which changes the order of the classes in the
  string and not which classes it holds.)
\<close>

definition objectLiteral :: "(string \<times> bool) list \<Rightarrow> (string \<times> bool) list" where
  "objectLiteral kvs = foldl (\<lambda>acc (k, v). AList.update k v acc) [] kvs"

definition appendClass :: "string \<Rightarrow> string \<Rightarrow> string" where
  "appendClass v newClass =
     (if newClass = [] then v
      else if v \<noteq> [] then v @ '' '' @ newClass
      else v @ newClass)"

fun classValueTruthy :: "classValue \<Rightarrow> bool" where
  "classValueTruthy (ClassStr None) = False"
| "classValueTruthy (ClassStr (Some s)) = (s \<noteq> [])"
| "classValueTruthy (ClassMap kvs) = True"

fun parseValue :: "classValue \<Rightarrow> string" where
  "parseValue (ClassStr None) = []"
| "parseValue (ClassStr (Some s)) = s"
| "parseValue (ClassMap kvs) =
     foldl (\<lambda>classes (k, on). if on then appendClass classes k else classes) [] kvs"

definition classNames :: "classValue list \<Rightarrow> string" where
  "classNames args =
     foldl (\<lambda>classes arg.
              if classValueTruthy arg then appendClass classes (parseValue arg) else classes)
       [] args"





section \<open>OmnibarExample (\<open>packages/docs-app/src/examples/select-examples/omnibarExample.tsx\<close>)\<close>

record OmnibarExampleState =
  allowCreate :: bool
  isOpen :: bool
  resetOnSelect :: bool

datatype error = TypeError

text \<open>
  The component instance: its state, and the \<open>toaster\<close> field, which is unset until
  the ref callback has run. A toaster is the list of the toasts it has shown; the toast
  of \<open>handleItemSelect\<close> is built from the selected film alone, so the film stands for
  it.
\<close>

record 'film OmnibarExample =
  state :: OmnibarExampleState
  toaster :: "'film list option"

definition OmnibarExample_initial :: "'film OmnibarExample" where
  "OmnibarExample_initial =
     \<lparr>state = \<lparr>allowCreate = False, isOpen = False, resetOnSelect = True\<rparr>,
      toaster = None\<rparr>"

text \<open>\<open>refHandlers.toaster\<close>\<close>

definition refHandlers_toaster ::
  "'film list option \<Rightarrow> 'film OmnibarExample \<Rightarrow> 'film OmnibarExample" where
  "refHandlers_toaster r this = this\<lparr>toaster := r\<rparr>"

text \<open>
  \<open>handleBooleanChange\<close> (\<open>docs-theme\<close>) hands the checkbox's \<open>checked\<close> flag to
  its callback; the handlers built with it take that flag.
\<close>

definition handleAllowCreateChange :: "bool \<Rightarrow> 'film OmnibarExample \<Rightarrow> 'film OmnibarExample" where
  "handleAllowCreateChange allowCreate' this =
     this\<lparr>state := (state this)\<lparr>allowCreate := allowCreate'\<rparr>\<rparr>"

definition handleResetChange :: "bool \<Rightarrow> 'film OmnibarExample \<Rightarrow> 'film OmnibarExample" where
  "handleResetChange resetOnSelect' this =
     this\<lparr>state := (state this)\<lparr>resetOnSelect := resetOnSelect'\<rparr>\<rparr>"

definition handleClick :: "'film OmnibarExample \<Rightarrow> 'film OmnibarExample" where
  "handleClick this = this\<lparr>state := (state this)\<lparr>isOpen := True\<rparr>\<rparr>"

text \<open>
  \<open>handleItemSelect\<close> first sets the state and then calls \<open>this.toaster.show\<close>, which
  throws a \<open>TypeError\<close> when the toaster is unset: the result is the instance after
  the call and the error thrown, if any.
\<close>

definition handleItemSelect ::
  "'film \<Rightarrow> 'film OmnibarExample \<Rightarrow> 'film OmnibarExample \<times> error option" where
  "handleItemSelect film this =
     (let this' = this\<lparr>state := (state this)\<lparr>isOpen := False\<rparr>\<rparr>
      in case toaster this' of
           None \<Rightarrow> (this', Some TypeError)
         | Some shown \<Rightarrow> (this'\<lparr>toaster := Some (shown @ [film])\<rparr>, None))"

definition handleClose :: "'film OmnibarExample \<Rightarrow> 'film OmnibarExample" where
  "handleClose this = this\<lparr>state := (state this)\<lparr>isOpen := False\<rparr>\<rparr>"

definition handleToggle :: "'film OmnibarExample \<Rightarrow> 'film OmnibarExample" where
  "handleToggle this = this\<lparr>state := (state this)\<lparr>isOpen := \<not> isOpen (state this)\<rparr>\<rparr>"

section \<open>NumericInputBasicExample (\<open>packages/docs-app/src/examples/core-examples/numericInputBasicExample.tsx\<close>)\<close>

text \<open>
  The component's state is a \<open>NumericInputProps\<close>: the fields the example initialises
  and the three its handlers add (\<open>leftIcon\<close>, \<open>leftElement\<close>, \<open>locale\<close>). The
  props \<open>max\<close>, \<open>min\<close>, \<open>value\<close> and \<open>locale\<close> are the fields \<open>max'\<close>,
  \<open>min'\<close>, \<open>value'\<close> and \<open>locale'\<close>. The intent type and the icon names are not part of the material and are
  parameters.
\<close>

record 'i NumericInputProps =
  allowNumericCharactersOnly :: bool
  buttonPosition :: string
  disabled :: bool
  fill :: bool
  intent :: 'i
  large :: bool
  majorStepSize :: number
  max' :: number
  min' :: number
  minorStepSize :: number
  selectAllOnFocus :: bool
  selectAllOnIncrement :: bool
  small :: bool
  stepSize :: number
  value' :: string
  leftIcon :: "string option"
  leftElement :: jsval
  locale' :: "string option"

record IconNames =
  Equals :: string
  LessThan :: string
  GreaterThan :: string
  Filter :: string

definition NumericInputBasicExample_initial :: "'i \<Rightarrow> 'i NumericInputProps" where
  "NumericInputBasicExample_initial Intent_NONE =
     \<lparr>allowNumericCharactersOnly = True,
      buttonPosition = ''right'',
      disabled = False,
      fill = False,
      intent = Intent_NONE,
      large = False,
      majorStepSize = Finite 10,
      max' = Finite 100,
      min' = Finite 0,
      minorStepSize = Finite (1 / 10),
      selectAllOnFocus = False,
      selectAllOnIncrement = False,
      small = False,
      stepSize = Finite 1,
      value' = [],
      leftIcon = None,
      leftElement = Undefined,
      locale' = None\<rparr>"

definition handleMaxChange :: "number \<Rightarrow> 'i NumericInputProps \<Rightarrow> 'i NumericInputProps" where
  "handleMaxChange m s = s\<lparr>max' := m\<rparr>"

definition handleMinChange :: "number \<Rightarrow> 'i NumericInputProps \<Rightarrow> 'i NumericInputProps" where
  "handleMinChange m s = s\<lparr>min' := m\<rparr>"

definition handleIntentChange :: "'i \<Rightarrow> 'i NumericInputProps \<Rightarrow> 'i NumericInputProps" where
  "handleIntentChange i s = s\<lparr>intent := i\<rparr>"

definition handleButtonPositionChange ::
  "string \<Rightarrow> 'i NumericInputProps \<Rightarrow> 'i NumericInputProps" where
  "handleButtonPositionChange b s = s\<lparr>buttonPosition := b\<rparr>"

definition handleLocaleChange :: "string \<Rightarrow> 'i NumericInputProps \<Rightarrow> 'i NumericInputProps" where
  "handleLocaleChange l s = s\<lparr>locale' := (if l = ''default'' then None else Some l)\<rparr>"

definition toggleDisabled :: "bool \<Rightarrow> 'i NumericInputProps \<Rightarrow> 'i NumericInputProps" where
  "toggleDisabled b s = s\<lparr>disabled := b\<rparr>"

definition toggleLeftIcon :: "bool \<Rightarrow> 'i NumericInputProps \<Rightarrow> 'i NumericInputProps" where
  "toggleLeftIcon b s = s\<lparr>leftIcon := (if b then Some ''dollar'' else None)\<rparr>"

text \<open>
  \<open>setState({ small, ...(small && { large: false }) })\<close>: spreading \<open>false\<close> adds
  nothing, so \<open>large\<close> is written only when \<open>small\<close> is true.
\<close>

definition handleSmallChange :: "bool \<Rightarrow> 'i NumericInputProps \<Rightarrow> 'i NumericInputProps" where
  "handleSmallChange b s = (if b then s\<lparr>small := b, large := False\<rparr> else s\<lparr>small := b\<rparr>)"

definition handleLargeChange :: "bool \<Rightarrow> 'i NumericInputProps \<Rightarrow> 'i NumericInputProps" where
  "handleLargeChange b s = (if b then s\<lparr>large := b, small := False\<rparr> else s\<lparr>large := b\<rparr>)"

definition toggleLeftElement ::
  "IconNames \<Rightarrow> bool \<Rightarrow> 'i NumericInputProps \<Rightarrow> 'i NumericInputProps" where
  "toggleLeftElement names b s =
     s\<lparr>leftElement :=
        (if b
         then createElement Popover
                [''position'' \<mapsto> Str ''bottom'',
                 ''content'' \<mapsto>
                    createElement Menu Map.empty
                      [createElement MenuItemComponent
                         [''icon'' \<mapsto> Str (Equals names), ''text'' \<mapsto> Str ''Equals''] [],
                       createElement MenuItemComponent
                         [''icon'' \<mapsto> Str (LessThan names), ''text'' \<mapsto> Str ''Less than''] [],
                       createElement MenuItemComponent
                         [''icon'' \<mapsto> Str (GreaterThan names), ''text'' \<mapsto> Str ''Greater than''] []]]
                [createElement Button
                   [''minimal'' \<mapsto> Bool True, ''icon'' \<mapsto> Str (Filter names)] []]
         else Undefined)\<rparr>"

definition toggleFullWidth :: "bool \<Rightarrow> 'i NumericInputProps \<Rightarrow> 'i NumericInputProps" where
  "toggleFullWidth b s = s\<lparr>fill := b\<rparr>"

definition toggleNumericCharsOnly :: "bool \<Rightarrow> 'i NumericInputProps \<Rightarrow> 'i NumericInputProps" where
  "toggleNumericCharsOnly b s = s\<lparr>allowNumericCharactersOnly := b\<rparr>"

definition toggleSelectAllOnFocus :: "bool \<Rightarrow> 'i NumericInputProps \<Rightarrow> 'i NumericInputProps" where
  "toggleSelectAllOnFocus b s = s\<lparr>selectAllOnFocus := b\<rparr>"

definition toggleSelectAllOnIncrement ::
  "bool \<Rightarrow> 'i NumericInputProps \<Rightarrow> 'i NumericInputProps" where
  "toggleSelectAllOnIncrement b s = s\<lparr>selectAllOnIncrement := b\<rparr>"

definition handleValueChange ::
  "number \<Rightarrow> string \<Rightarrow> 'i NumericInputProps \<Rightarrow> 'i NumericInputProps" where
  "handleValueChange v str s = s\<lparr>value' := str\<rparr>"

text \<open>
  Every way the state is updated: one event for each handler that calls \<open>setState\<close>,
  carrying what the handler receives.
\<close>

datatype 'i NumericInputEvent =
    MaxChange number
  | MinChange number
  | IntentChange 'i
  | ButtonPositionChange string
  | LocaleChange string
  | DisabledChange bool
  | LeftIconChange bool
  | SmallChange bool
  | LargeChange bool
  | LeftElementChange bool
  | FullWidthChange bool
  | NumericCharsOnlyChange bool
  | SelectAllOnFocusChange bool
  | SelectAllOnIncrementChange bool
  | ValueChange number string

fun handleEvent ::
  "IconNames \<Rightarrow> 'i NumericInputProps \<Rightarrow> 'i NumericInputEvent \<Rightarrow> 'i NumericInputProps" where
  "handleEvent names s (MaxChange m) = handleMaxChange m s"
| "handleEvent names s (MinChange m) = handleMinChange m s"
| "handleEvent names s (IntentChange i) = handleIntentChange i s"
| "handleEvent names s (ButtonPositionChange b) = handleButtonPositionChange b s"
| "handleEvent names s (LocaleChange l) = handleLocaleChange l s"
| "handleEvent names s (DisabledChange b) = toggleDisabled b s"
| "handleEvent names s (LeftIconChange b) = toggleLeftIcon b s"
| "handleEvent names s (SmallChange b) = handleSmallChange b s"
| "handleEvent names s (LargeChange b) = handleLargeChange b s"
| "handleEvent names s (LeftElementChange b) = toggleLeftElement names b s"
| "handleEvent names s (FullWidthChange b) = toggleFullWidth b s"
| "handleEvent names s (NumericCharsOnlyChange b) = toggleNumericCharsOnly b s"
| "handleEvent names s (SelectAllOnFocusChange b) = toggleSelectAllOnFocus b s"
| "handleEvent names s (SelectAllOnIncrementChange b) = toggleSelectAllOnIncrement b s"
| "handleEvent names s (ValueChange v str) = handleValueChange v str s"

definition runEvents ::
  "IconNames \<Rightarrow> 'i NumericInputProps \<Rightarrow> 'i NumericInputEvent list \<Rightarrow> 'i NumericInputProps" where
  "runEvents names s es = foldl (handleEvent names) s es"

section \<open>MenuItem (\<open>packages/core/src/components/menu/menuItem.tsx\<close>)\<close>

text \<open>
  \<open>Classes\<close> (\<open>common/classes.ts\<close>) and the \<open>Intent\<close> type are imported by
  \<open>menuItem.tsx\<close> and are not part of the material: the class-name constants and
  \<open>Classes.intentClass\<close> are parameters, the intent type is a type parameter.
\<close>

record 'i Classes =
  MENU_ITEM :: string
  ACTIVE :: string
  DISABLED :: string
  POPOVER_DISMISS :: string
  SELECTED :: string
  MENU_ITEM_ICON :: string
  FILL :: string
  MENU_ITEM_LABEL :: string
  MENU_SUBMENU :: string
  MENU_SUBMENU_ICON :: string
  intentClass :: "'i option \<Rightarrow> string option"

datatype RoleStructure = menuitem | listoption

text \<open>
  \<open>popoverProps\<close>: the one property \<open>MenuItem\<close> reads by name, and the others, which it
  only spreads onto the submenu popover.
\<close>

record PopoverPropsPartial =
  popoverClassName :: "string option"
  popoverRest :: object

text \<open>
  The props of a \<open>MenuItem\<close>, as \<open>render\<close> destructures them: one field for each name
  in the destructuring pattern, and \<open>htmlProps\<close> for the rest pattern
  \<open>...htmlProps\<close>, which collects every other own property of \<open>this.props\<close>. The
  pattern does not name \<open>icon\<close> and \<open>label\<close>, so these two live in \<open>htmlProps\<close>
  and the component reads them through \<open>this.props\<close>. The prop \<open>text\<close> is the field
  \<open>itemText\<close>.
\<close>

record 'i MenuItemProps =
  active :: "bool option"
  className :: "string option"
  children :: jsval
  disabled :: "bool option"
  intent :: "'i option"
  labelClassName :: "string option"
  labelElement :: jsval
  multiline :: "bool option"
  popoverProps :: "PopoverPropsPartial option"
  roleStructure :: "RoleStructure option"
  selected :: "bool option"
  shouldDismissPopover :: "bool option"
  submenuProps :: "object option"
  itemText :: jsval
  textClassName :: "string option"
  tagName :: "string option"
  htmlTitle :: "string option"
  htmlProps :: object


text \<open>
  A mounted component: its props, and whatever else the instance holds (the fields of
  \<open>AbstractPureComponent\<close>, React's own bookkeeping) in the record's extension.
\<close>

record 'i MenuItem =
  props :: "'i MenuItemProps"

definition SUBMENU_POPOVER_MODIFIERS :: jsval where
  "SUBMENU_POPOVER_MODIFIERS = Obj [
     ''flip'' \<mapsto> Obj [
        ''options'' \<mapsto> Obj [''rootBoundary'' \<mapsto> Str ''viewport'', ''padding'' \<mapsto> Num (Finite 20)],
        ''enabled'' \<mapsto> Bool True],
     ''offset'' \<mapsto> Obj [
        ''options'' \<mapsto> Obj [''offset'' \<mapsto> Arr [Num (Finite (- 5)), Num (Finite 0)]],
        ''enabled'' \<mapsto> Bool True],
     ''preventOverflow'' \<mapsto> Obj [
        ''options'' \<mapsto> Obj [''rootBoundary'' \<mapsto> Str ''viewport'', ''padding'' \<mapsto> Num (Finite 20)],
        ''enabled'' \<mapsto> Bool True]]"

definition DISABLED_PROPS :: object where
  "DISABLED_PROPS = [
     ''href'' \<mapsto> Undefined,
     ''onClick'' \<mapsto> Undefined,
     ''onMouseDown'' \<mapsto> Undefined,
     ''onMouseEnter'' \<mapsto> Undefined,
     ''onMouseLeave'' \<mapsto> Undefined,
     ''tabIndex'' \<mapsto> Num (Finite (- 1))]"

definition maybeRenderLabel ::
  "'i Classes \<Rightarrow> ('i, 'z) MenuItem_scheme \<Rightarrow> jsval \<Rightarrow> jsval" where
  "maybeRenderLabel C this labelElement' =
     (let label = getProp (htmlProps (props this)) ''label'';
          labelClassName' = labelClassName (props this)
      in if nullish label \<and> nullish labelElement' then Null
         else createElement (Intrinsic ''span'')
                [''className'' \<mapsto>
                   Str (classNames [ClassStr (Some (MENU_ITEM_LABEL C)), ClassStr labelClassName'])]
                [label, labelElement'])"

definition spreadPopoverProps :: "PopoverPropsPartial option \<Rightarrow> object" where
  "spreadPopoverProps q =
     (case q of
        None \<Rightarrow> Map.empty
      | Some pp \<Rightarrow>
          (case popoverClassName pp of
             None \<Rightarrow> popoverRest pp
           | Some s \<Rightarrow> (popoverRest pp)(''popoverClassName'' \<mapsto> Str s)))"

definition maybeRenderPopover ::
  "'i Classes \<Rightarrow> ('i, 'z) MenuItem_scheme \<Rightarrow> jsval \<Rightarrow> jsval \<Rightarrow> jsval" where
  "maybeRenderPopover C this target children' =
     (if nullish children' then target
      else
        let disabled' = disabled (props this);
            popoverProps' = popoverProps (props this);
            submenuProps' = submenuProps (props this)
        in createElement Popover
             ([''autoFocus'' \<mapsto> Bool False,
               ''captureDismiss'' \<mapsto> Bool False,
               ''disabled'' \<mapsto> ofBool disabled',
               ''enforceFocus'' \<mapsto> Bool False,
               ''hoverCloseDelay'' \<mapsto> Num (Finite 0),
               ''interactionKind'' \<mapsto> Str ''hover'',
               ''modifiers'' \<mapsto> SUBMENU_POPOVER_MODIFIERS,
               ''placement'' \<mapsto> Str ''right-start'',
               ''usePortal'' \<mapsto> Bool False]
              ++ spreadPopoverProps popoverProps'
              ++ [''content'' \<mapsto> createElement Menu (spread submenuProps') [children'],
                  ''minimal'' \<mapsto> Bool True,
                  ''popoverClassName'' \<mapsto>
                     Str (classNames [ClassStr (Some (MENU_SUBMENU C)),
                            ClassStr (case popoverProps' of
                                        None \<Rightarrow> None
                                      | Some pp \<Rightarrow> popoverClassName pp)])])
             [target])"

text \<open>The four values that \<open>roleStructure\<close> decides.\<close>

definition roleValues ::
  "RoleStructure \<Rightarrow> jsval \<Rightarrow> bool option \<Rightarrow> jsval \<times> jsval \<times> jsval \<times> jsval" where
  "roleValues roleStructure' propsIcon selected' =
     (if roleStructure' = listoption
      then (Str ''option'',
            Undefined,
            nullishCoalesce propsIcon
              (case selected' of
                 None \<Rightarrow> Undefined
               | Some s \<Rightarrow> if s then Str ''small-tick'' else Str ''blank''),
            Bool (truthy selected'))
      else (Str ''none'',
            Str ''menuitem'',
            propsIcon,
            Undefined))"

text \<open>The constant \<open>anchorClasses\<close> of \<open>render\<close>: the target's \<open>className\<close>.\<close>

definition anchorClassesOf :: "'i Classes \<Rightarrow> 'i MenuItemProps \<Rightarrow> string" where
  "anchorClassesOf C p =
     (let hasSubmenu = \<not> nullish (children p);
          intentClass' = intentClass C (intent p)
      in classNames [
           ClassStr (Some (MENU_ITEM C)),
           ClassStr intentClass',
           ClassMap (objectLiteral [
             (ACTIVE C, truthy (active p)),
             (DISABLED C, truthy (disabled p)),
             (POPOVER_DISMISS C,
                truthy (shouldDismissPopover p) \<and> \<not> truthy (disabled p) \<and> \<not> hasSubmenu),
             (SELECTED C, truthy (active p) \<and> intentClass' = None)]),
           ClassStr (className p)])"

text \<open>
  The constant \<open>target\<close> of \<open>render\<close>, with the constants it is computed from, as a
  definition of its own so that statements can name the target element.
\<close>

definition renderTarget :: "'i Classes \<Rightarrow> ('i, 'z) MenuItem_scheme \<Rightarrow> jsval" where
  "renderTarget C this =
     (let p = props this;
          roleStructure' = (case roleStructure p of None \<Rightarrow> menuitem | Some r \<Rightarrow> r);
          tagName' = (case tagName p of None \<Rightarrow> ''a'' | Some t \<Rightarrow> t);
          (liRole, targetRole, icon, ariaSelected) =
             roleValues roleStructure' (getProp (htmlProps p) ''icon'') (selected p);
          hasIcon = \<not> nullish icon;
          hasSubmenu = \<not> nullish (children p);
          anchorClasses = anchorClassesOf C p
      in createElement (Intrinsic tagName')
           ([''role'' \<mapsto> targetRole, ''tabIndex'' \<mapsto> Num (Finite 0)]
            ++ htmlProps p
            ++ (if truthy (disabled p) then DISABLED_PROPS else Map.empty)
            ++ [''className'' \<mapsto> Str anchorClasses])
           [if hasIcon
            then createElement (Intrinsic ''span'')
                   [''className'' \<mapsto> Str (MENU_ITEM_ICON C)]
                   [createElement Icon
                      [''icon'' \<mapsto> icon, ''aria-hidden'' \<mapsto> Bool True,
                       ''tabIndex'' \<mapsto> Num (Finite (- 1))]
                      []]
            else Undefined,
            createElement Text
              [''className'' \<mapsto> Str (classNames [ClassStr (Some (FILL C)), ClassStr (textClassName p)]),
               ''ellipsize'' \<mapsto> Bool (\<not> truthy (multiline p)),
               ''title'' \<mapsto> ofString (htmlTitle p)]
              [itemText p],
            maybeRenderLabel C this (labelElement p),
            if hasSubmenu
            then createElement CaretRight
                   [''className'' \<mapsto> Str (MENU_SUBMENU_ICON C), ''title'' \<mapsto> Str ''Open sub menu'']
                   []
            else Undefined])"

text \<open>\<open>MenuItem.render\<close>: the \<open>li\<close> around the target or its submenu popover.\<close>

definition render :: "'i Classes \<Rightarrow> ('i, 'z) MenuItem_scheme \<Rightarrow> jsval" where
  "render C this =
     (let p = props this;
          roleStructure' = (case roleStructure p of None \<Rightarrow> menuitem | Some r \<Rightarrow> r);
          (liRole, targetRole, icon, ariaSelected) =
             roleValues roleStructure' (getProp (htmlProps p) ''icon'') (selected p);
          hasSubmenu = \<not> nullish (children p);
          target = renderTarget C this;
          liClasses = classNames [ClassMap (objectLiteral [(MENU_SUBMENU C, hasSubmenu)])]
      in createElement (Intrinsic ''li'')
           [''className'' \<mapsto> Str liClasses, ''role'' \<mapsto> liRole, ''aria-selected'' \<mapsto> ariaSelected]
           [maybeRenderPopover C this target (children p)])"



section \<open>Sample inputs\<close>

text \<open>
  Values for the parameters, with the class names of Blueprint 5 and intents as their
  string values, and a prop bag in which every prop is \<open>undefined\<close> and there are no
  further properties; the concrete instances below are built from them.
\<close>

definition sampleClasses :: "string Classes" where
  "sampleClasses =
     \<lparr>MENU_ITEM = ''bp5-menu-item'',
      ACTIVE = ''bp5-active'',
      DISABLED = ''bp5-disabled'',
      POPOVER_DISMISS = ''bp5-popover-dismiss'',
      SELECTED = ''bp5-selected'',
      MENU_ITEM_ICON = ''bp5-menu-item-icon'',
      FILL = ''bp5-fill'',
      MENU_ITEM_LABEL = ''bp5-menu-item-label'',
      MENU_SUBMENU = ''bp5-submenu'',
      MENU_SUBMENU_ICON = ''bp5-submenu-icon'',
      intentClass = (\<lambda>i. case i of
                            None \<Rightarrow> None
                          | Some s \<Rightarrow> if s = ''none'' then None else Some (''bp5-intent-'' @ s))\<rparr>"

definition noProps :: "'i MenuItemProps" where
  "noProps =
     \<lparr>active = None,
      className = None,
      children = Undefined,
      disabled = None,
      intent = None,
      labelClassName = None,
      labelElement = Undefined,
      multiline = None,
      popoverProps = None,
      roleStructure = None,
      selected = None,
      shouldDismissPopover = None,
      submenuProps = None,
      itemText = Undefined,
      textClassName = None,
      tagName = None,
      htmlTitle = None,
      htmlProps = Map.empty\<rparr>"

definition sampleIconNames :: IconNames where
  "sampleIconNames =
     \<lparr>Equals = ''equals'', LessThan = ''less-than'', GreaterThan = ''greater-than'',
      Filter = ''filter''\<rparr>"

section \<open>Class lists\<close>
















section \<open>The rendered element\<close>

lemma render_children:
  "elementChildren (render C this) =
     [maybeRenderPopover C this (renderTarget C this) (children (props this))]"
  by (simp add: render_def createElement_def Let_def split: prod.split)

lemma render_type: "elementType (render C this) = Some (Intrinsic ''li'')"
  by (simp add: render_def createElement_def Let_def split: prod.split)

lemma renderTarget_type:
  "elementType (renderTarget C this) =
     Some (Intrinsic (case tagName (props this) of None \<Rightarrow> ''a'' | Some t \<Rightarrow> t))"
  by (simp add: renderTarget_def createElement_def Let_def split: prod.split)

lemma renderTarget_props:
  "elementProps (renderTarget C this) =
     ([''role'' \<mapsto> fst (snd (roleValues
          (case roleStructure (props this) of None \<Rightarrow> menuitem | Some r \<Rightarrow> r)
          (getProp (htmlProps (props this)) ''icon'') (selected (props this)))),
       ''tabIndex'' \<mapsto> Num (Finite 0)]
      ++ htmlProps (props this)
      ++ (if truthy (disabled (props this)) then DISABLED_PROPS else Map.empty)
      ++ [''className'' \<mapsto> Str (anchorClassesOf C (props this))])(''children'' := None)"
  by (simp add: renderTarget_def createElement_def Let_def split: prod.split)

lemma renderTarget_children_length: "length (elementChildren (renderTarget C this)) = 4"
  by (simp add: renderTarget_def createElement_def Let_def split: prod.split)

lemma renderTarget_caret:
  "elementChildren (renderTarget C this) ! 3 =
     (if nullish (children (props this)) then Undefined
      else Element CaretRight
             [''className'' \<mapsto> Str (MENU_SUBMENU_ICON C), ''title'' \<mapsto> Str ''Open sub menu''] [])"
  by (simp add: renderTarget_def createElement_def Let_def split: prod.split)

section \<open>The state of NumericInputBasicExample\<close>

lemma handleEvent_preserves:
  "\<not> (small s \<and> large s) \<Longrightarrow>
   \<not> (small (handleEvent names s e) \<and> large (handleEvent names s e))"
  by (cases e)
     (simp_all add: handleMaxChange_def handleMinChange_def handleIntentChange_def
        handleButtonPositionChange_def handleLocaleChange_def toggleDisabled_def
        toggleLeftIcon_def handleSmallChange_def handleLargeChange_def toggleLeftElement_def
        toggleFullWidth_def toggleNumericCharsOnly_def toggleSelectAllOnFocus_def
        toggleSelectAllOnIncrement_def handleValueChange_def)

lemma runEvents_preserves:
  "\<not> (small s \<and> large s) \<Longrightarrow>
   \<not> (small (runEvents names s es) \<and> large (runEvents names s es))"
  unfolding runEvents_def
proof (induction es arbitrary: s)
  case Nil
  then show ?case by simp
next
  case (Cons e es)
  have "\<not> (small (handleEvent names s e) \<and> large (handleEvent names s e))"
    using Cons.prems by (rule handleEvent_preserves)
  then show ?case using Cons.IH by simp
qed

section \<open>Properties of the components\<close>

text \<open>
  C1, as amended. The \<open>li\<close> has role \<open>option\<close> and \<open>aria-selected = Boolean(selected)\<close>
  when \<open>roleStructure\<close> is \<open>listoption\<close>, and role \<open>none\<close> and no \<open>aria-selected\<close>
  otherwise. The target's role is the \<open>role\<close> of the HTML props when they have one;
  only when they have none is it unset for \<open>listoption\<close> and \<open>menuitem\<close> otherwise.
\<close>

theorem MenuItem_role_structure:
  "elementType (render C this) = Some (Intrinsic ''li'') \<and>
   attr (render C this) ''role'' =
     (if roleStructure (props this) = Some listoption then Str ''option'' else Str ''none'') \<and>
   attr (render C this) ''aria-selected'' =
     (if roleStructure (props this) = Some listoption
      then Bool (truthy (selected (props this))) else Undefined) \<and>
   attr (renderTarget C this) ''role'' =
     (case htmlProps (props this) ''role'' of
        Some r \<Rightarrow> r
      | None \<Rightarrow> if roleStructure (props this) = Some listoption
                then Undefined else Str ''menuitem'')"
proof (intro conjI)
  show "elementType (render C this) = Some (Intrinsic ''li'')"
    by (rule render_type)
  show "attr (render C this) ''role'' =
     (if roleStructure (props this) = Some listoption then Str ''option'' else Str ''none'')"
    by (simp add: render_def createElement_def Let_def attr_def getProp_def roleValues_def
          split: prod.split option.split RoleStructure.split)
  show "attr (render C this) ''aria-selected'' =
     (if roleStructure (props this) = Some listoption
      then Bool (truthy (selected (props this))) else Undefined)"
    by (simp add: render_def createElement_def Let_def attr_def getProp_def roleValues_def
          split: prod.split option.split RoleStructure.split)
  show "attr (renderTarget C this) ''role'' =
     (case htmlProps (props this) ''role'' of
        Some r \<Rightarrow> r
      | None \<Rightarrow> if roleStructure (props this) = Some listoption
                then Undefined else Str ''menuitem'')"
    by (simp add: renderTarget_props attr_def getProp_def roleValues_def DISABLED_PROPS_def
          map_add_def split: option.split RoleStructure.split)
qed

theorem MenuItem_role_structure_witness:
  "attr (render sampleClasses \<lparr>props = noProps\<lparr>roleStructure := Some listoption,
      selected := Some True\<rparr>\<rparr>) ''role'' = Str ''option'' \<and>
   attr (render sampleClasses \<lparr>props = noProps\<lparr>roleStructure := Some listoption,
      selected := Some True\<rparr>\<rparr>) ''aria-selected'' = Bool True \<and>
   attr (renderTarget sampleClasses \<lparr>props = noProps\<lparr>roleStructure := Some listoption,
      selected := Some True\<rparr>\<rparr>) ''role'' = Undefined \<and>
   attr (render sampleClasses \<lparr>props = noProps\<rparr>) ''role'' = Str ''none'' \<and>
   attr (render sampleClasses \<lparr>props = noProps\<rparr>) ''aria-selected'' = Undefined \<and>
   attr (renderTarget sampleClasses \<lparr>props = noProps\<rparr>) ''role'' = Str ''menuitem''"
  using MenuItem_role_structure [of sampleClasses
      "\<lparr>props = noProps\<lparr>roleStructure := Some listoption, selected := Some True\<rparr>\<rparr>"]
    MenuItem_role_structure [of sampleClasses "\<lparr>props = noProps\<rparr>"]
  by (simp add: noProps_def truthy_def)

text \<open>
  C1 as stated fails: a \<open>listoption\<close> item given \<open>role="button"\<close> in its HTML props
  renders a target, the only child of the \<open>li\<close>, whose role is \<open>button\<close>.
\<close>

theorem MenuItem_role_counterexample:
  "roleStructure (props \<lparr>props = noProps\<lparr>roleStructure := Some listoption,
      htmlProps := [''role'' \<mapsto> Str ''button'']\<rparr>\<rparr>) = Some listoption \<and>
   elementChildren (render sampleClasses \<lparr>props = noProps\<lparr>roleStructure := Some listoption,
      htmlProps := [''role'' \<mapsto> Str ''button'']\<rparr>\<rparr>) =
     [renderTarget sampleClasses \<lparr>props = noProps\<lparr>roleStructure := Some listoption,
        htmlProps := [''role'' \<mapsto> Str ''button'']\<rparr>\<rparr>] \<and>
   attr (renderTarget sampleClasses \<lparr>props = noProps\<lparr>roleStructure := Some listoption,
      htmlProps := [''role'' \<mapsto> Str ''button'']\<rparr>\<rparr>) ''role'' = Str ''button''"
  by (simp add: render_children renderTarget_props maybeRenderPopover_def nullish_def attr_def
        getProp_def noProps_def truthy_def map_add_def)

text \<open>
  C2. The \<open>li\<close> has one child. When \<open>children\<close> is \<open>null\<close> or \<open>undefined\<close> it is
  the target itself, and the target's last child, the place of the caret, is empty.
  Otherwise it is a \<open>Popover\<close> whose only child is the target and whose \<open>content\<close>
  is a \<open>Menu\<close> with those children as its only child, and the target's last child is
  the \<open>CaretRight\<close> icon. The target is never itself a \<open>Popover\<close>, so the child of the
  \<open>li\<close> is a \<open>Popover\<close> exactly when \<open>children\<close> is neither \<open>null\<close> nor
  \<open>undefined\<close>.
\<close>

theorem MenuItem_submenu_popover:
  "(nullish (children (props this)) \<longrightarrow>
      elementChildren (render C this) = [renderTarget C this] \<and>
      elementChildren (renderTarget C this) ! 3 = Undefined) \<and>
   (\<not> nullish (children (props this)) \<longrightarrow>
      (\<exists>ps. elementChildren (render C this) = [Element Popover ps [renderTarget C this]] \<and>
            (\<exists>ms. ps ''content'' = Some (Element Menu ms [children (props this)]))) \<and>
      elementType (elementChildren (renderTarget C this) ! 3) = Some CaretRight) \<and>
   length (elementChildren (renderTarget C this)) = 4 \<and>
   elementType (renderTarget C this) \<noteq> Some Popover \<and>
   (elementType (hd (elementChildren (render C this))) = Some Popover
      \<longleftrightarrow> \<not> nullish (children (props this)))"
  by (simp add: render_children renderTarget_caret renderTarget_children_length renderTarget_type
        maybeRenderPopover_def createElement_def Let_def)

theorem MenuItem_submenu_popover_witness:
  "nullish (children (props \<lparr>props = (noProps :: string MenuItemProps)\<rparr>)) \<and>
   elementChildren (render sampleClasses \<lparr>props = noProps\<rparr>) =
     [renderTarget sampleClasses \<lparr>props = noProps\<rparr>] \<and>
   elementChildren (renderTarget sampleClasses \<lparr>props = noProps\<rparr>) ! 3 = Undefined \<and>
   \<not> nullish (children (props \<lparr>props = (noProps :: string MenuItemProps)\<lparr>children := Str ''sub''\<rparr>\<rparr>)) \<and>
   elementType (hd (elementChildren
      (render sampleClasses \<lparr>props = noProps\<lparr>children := Str ''sub''\<rparr>\<rparr>))) = Some Popover \<and>
   elementType (elementChildren
      (renderTarget sampleClasses \<lparr>props = noProps\<lparr>children := Str ''sub''\<rparr>\<rparr>) ! 3) = Some CaretRight"
  using MenuItem_submenu_popover [of "\<lparr>props = noProps\<rparr>" sampleClasses]
    MenuItem_submenu_popover [of "\<lparr>props = noProps\<lparr>children := Str ''sub''\<rparr>\<rparr>" sampleClasses]
  by (simp add: noProps_def nullish_def)

text \<open>
  C8. When \<open>disabled\<close> is true the target's \<open>href\<close>, \<open>onClick\<close>, \<open>onMouseDown\<close>,
  \<open>onMouseEnter\<close> and \<open>onMouseLeave\<close> are \<open>undefined\<close> and its \<open>tabIndex\<close> is
  \<open>-1\<close>, whatever the HTML props give for them, and every other HTML prop reaches the
  target with its value. (\<open>className\<close> and \<open>children\<close> are named in the
  destructuring pattern, so they are never keys of \<open>htmlProps\<close>.)
\<close>

theorem MenuItem_disabled_props:
  assumes "disabled (props this) = Some True"
  shows "elementProps (renderTarget C this) ''href'' = Some Undefined \<and>
         elementProps (renderTarget C this) ''onClick'' = Some Undefined \<and>
         elementProps (renderTarget C this) ''onMouseDown'' = Some Undefined \<and>
         elementProps (renderTarget C this) ''onMouseEnter'' = Some Undefined \<and>
         elementProps (renderTarget C this) ''onMouseLeave'' = Some Undefined \<and>
         elementProps (renderTarget C this) ''tabIndex'' = Some (Num (Finite (- 1))) \<and>
         (\<forall>k v. htmlProps (props this) k = Some v \<longrightarrow>
            k \<notin> {''href'', ''onClick'', ''onMouseDown'', ''onMouseEnter'', ''onMouseLeave'',
                  ''tabIndex''} \<longrightarrow>
            k \<notin> {''className'', ''children''} \<longrightarrow>
            elementProps (renderTarget C this) k = Some v)"
  using assms
  by (simp add: renderTarget_props truthy_def DISABLED_PROPS_def map_add_def)

theorem MenuItem_disabled_props_witness:
  "disabled (props \<lparr>props = (noProps :: string MenuItemProps)\<lparr>disabled := Some True,
      htmlProps := [''href'' \<mapsto> Str ''/films'', ''onClick'' \<mapsto> Fn 1,
        ''tabIndex'' \<mapsto> Num (Finite 3), ''target'' \<mapsto> Str ''_blank'']\<rparr>\<rparr>) = Some True \<and>
   elementProps (renderTarget sampleClasses \<lparr>props = noProps\<lparr>disabled := Some True,
      htmlProps := [''href'' \<mapsto> Str ''/films'', ''onClick'' \<mapsto> Fn 1,
        ''tabIndex'' \<mapsto> Num (Finite 3), ''target'' \<mapsto> Str ''_blank'']\<rparr>\<rparr>) ''href'' = Some Undefined \<and>
   elementProps (renderTarget sampleClasses \<lparr>props = noProps\<lparr>disabled := Some True,
      htmlProps := [''href'' \<mapsto> Str ''/films'', ''onClick'' \<mapsto> Fn 1,
        ''tabIndex'' \<mapsto> Num (Finite 3), ''target'' \<mapsto> Str ''_blank'']\<rparr>\<rparr>) ''onClick'' = Some Undefined \<and>
   elementProps (renderTarget sampleClasses \<lparr>props = noProps\<lparr>disabled := Some True,
      htmlProps := [''href'' \<mapsto> Str ''/films'', ''onClick'' \<mapsto> Fn 1,
        ''tabIndex'' \<mapsto> Num (Finite 3), ''target'' \<mapsto> Str ''_blank'']\<rparr>\<rparr>) ''tabIndex'' =
     Some (Num (Finite (- 1))) \<and>
   elementProps (renderTarget sampleClasses \<lparr>props = noProps\<lparr>disabled := Some True,
      htmlProps := [''href'' \<mapsto> Str ''/films'', ''onClick'' \<mapsto> Fn 1,
        ''tabIndex'' \<mapsto> Num (Finite 3), ''target'' \<mapsto> Str ''_blank'']\<rparr>\<rparr>) ''target'' =
     Some (Str ''_blank'')"
  using MenuItem_disabled_props [of "\<lparr>props = noProps\<lparr>disabled := Some True,
      htmlProps := [''href'' \<mapsto> Str ''/films'', ''onClick'' \<mapsto> Fn 1,
        ''tabIndex'' \<mapsto> Num (Finite 3), ''target'' \<mapsto> Str ''_blank'']\<rparr>\<rparr>" sampleClasses]
  by (simp add: noProps_def)





text \<open>
  C5. Each handler of \<open>OmnibarExample\<close> sets \<open>isOpen\<close> as a function of the state it
  is called in: the button click to true, closing and item selection to false (item
  selection also when the toaster is unset and the call throws after the state is set),
  the hotkey toggle to its negation, so that two toggles restore the instance. The two
  switches leave \<open>isOpen\<close> as it is.
\<close>

theorem OmnibarExample_isOpen_updates:
  "isOpen (state (handleClick this)) \<and>
   \<not> isOpen (state (handleClose this)) \<and>
   \<not> isOpen (state (fst (handleItemSelect film this))) \<and>
   isOpen (state (handleToggle this)) = (\<not> isOpen (state this)) \<and>
   handleToggle (handleToggle this) = this \<and>
   isOpen (state (handleAllowCreateChange b this)) = isOpen (state this) \<and>
   isOpen (state (handleResetChange b this)) = isOpen (state this)"
  by (simp add: handleClick_def handleClose_def handleItemSelect_def handleToggle_def
      handleAllowCreateChange_def handleResetChange_def Let_def split: option.split)

theorem OmnibarExample_isOpen_updates_witness:
  "isOpen (state (handleClick (OmnibarExample_initial :: nat OmnibarExample))) \<and>
   \<not> isOpen (state (handleClose (handleClick (OmnibarExample_initial :: nat OmnibarExample)))) \<and>
   \<not> isOpen (state (fst (handleItemSelect (7 :: nat) (handleClick OmnibarExample_initial)))) \<and>
   isOpen (state (handleToggle (OmnibarExample_initial :: nat OmnibarExample))) \<and>
   handleToggle (handleToggle (OmnibarExample_initial :: nat OmnibarExample)) =
     OmnibarExample_initial"
  using OmnibarExample_isOpen_updates [of "OmnibarExample_initial :: nat OmnibarExample" 7 True]
    OmnibarExample_isOpen_updates [of "handleClick (OmnibarExample_initial :: nat OmnibarExample)" 7 True]
  by (simp add: OmnibarExample_initial_def)

text \<open>
  C10. In \<open>NumericInputBasicExample\<close> \<open>small\<close> and \<open>large\<close> are both false at the
  start and are never both true after any sequence of state updates; switching
  \<open>small\<close> on sets \<open>large\<close> to false and switching \<open>large\<close> on sets \<open>small\<close> to
  false.
\<close>

theorem NumericInputBasicExample_small_large_exclusive:
  "\<not> small (NumericInputBasicExample_initial i) \<and>
   \<not> large (NumericInputBasicExample_initial i) \<and>
   \<not> (small (runEvents names (NumericInputBasicExample_initial i) es) \<and>
      large (runEvents names (NumericInputBasicExample_initial i) es)) \<and>
   small (handleSmallChange True s) \<and> \<not> large (handleSmallChange True s) \<and>
   large (handleLargeChange True s) \<and> \<not> small (handleLargeChange True s)"
proof -
  have init: "\<not> (small (NumericInputBasicExample_initial i) \<and> large (NumericInputBasicExample_initial i))"
    by (simp add: NumericInputBasicExample_initial_def)
  show ?thesis
    using runEvents_preserves [OF init, of names es]
    by (simp add: NumericInputBasicExample_initial_def handleSmallChange_def handleLargeChange_def)
qed

theorem NumericInputBasicExample_small_large_exclusive_witness:
  "small (runEvents sampleIconNames (NumericInputBasicExample_initial ''none'')
      [LargeChange True, SmallChange True]) \<and>
   \<not> large (runEvents sampleIconNames (NumericInputBasicExample_initial ''none'')
      [LargeChange True, SmallChange True]) \<and>
   large (runEvents sampleIconNames (NumericInputBasicExample_initial ''none'')
      [SmallChange True, LeftElementChange True, LargeChange True]) \<and>
   \<not> small (runEvents sampleIconNames (NumericInputBasicExample_initial ''none'')
      [SmallChange True, LeftElementChange True, LargeChange True])"
  using NumericInputBasicExample_small_large_exclusive [of "''none''" sampleIconNames
      "[LargeChange True, SmallChange True]"]
    NumericInputBasicExample_small_large_exclusive [of "''none''" sampleIconNames
      "[SmallChange True, LeftElementChange True, LargeChange True]"]
  by (simp add: runEvents_def handleSmallChange_def handleLargeChange_def toggleLeftElement_def
        NumericInputBasicExample_initial_def)

end
